theory Spec2Isabelle
  imports Main "HOL-Library.AList"
begin

section \<open>Data of \<^verbatim>\<open>oauthenticator/openshift.py\<close>\<close>

text \<open>
  The exceptions the module raises, catches or lets through. In tornado \<^verbatim>\<open>CurlError\<close>
  is a subclass of \<^verbatim>\<open>HTTPError\<close> whose code is always 599: \<open>http_code\<close> gives the
  code of an exception that \<^verbatim>\<open>except HTTPError\<close> catches, and nothing for any other.
  \<open>OtherError\<close> stands for an exception of any other class.
\<close>

datatype exn =
    CurlError
  | HTTPError nat
  | MissingArgumentError string
  | KeyError string
  | TypeError
  | OtherError string

fun is_CurlError :: "exn \<Rightarrow> bool" where
  "is_CurlError CurlError = True"
| "is_CurlError _ = False"

fun http_code :: "exn \<Rightarrow> nat option" where
  "http_code CurlError = Some 599"
| "http_code (HTTPError c) = Some c"
| "http_code _ = None"

text \<open>
  The JSON bodies the two endpoints answer with, decoded, at the keys the module reads:
  \<^verbatim>\<open>resp['access_token']\<close>, \<^verbatim>\<open>ocp_user['metadata']['name']\<close> and
  \<^verbatim>\<open>ocp_user['groups']\<close>. Group names are strings. A body that lacks one of these keys,
  or holds a value of another type there, is not an input of the model.
\<close>

record token_response =
  resp_access_token :: string

record object_meta =
  name :: string

record openshift_user =
  metadata :: object_meta
  groups :: "string list"

text \<open>
  The dictionary \<^verbatim>\<open>{'access_token': access_token, 'openshift_user': ocp_user}\<close>, and the
  values a user-info dictionary holds. A user-info dictionary is an association list in
  insertion order; \<^verbatim>\<open>d[k] = v\<close> is \<open>AList.update k v d\<close>.
\<close>

record auth_state =
  access_token :: string
  openshift_user :: openshift_user

datatype pyval =
    PStr string
  | PBool bool
  | PAuthState auth_state

type_synonym user_info = "(string \<times> pyval) list"

definition getitem :: "user_info \<Rightarrow> string \<Rightarrow> exn + pyval" where
  "getitem d k = (case map_of d k of None \<Rightarrow> Inl (KeyError k) | Some v \<Rightarrow> Inr v)"

text \<open>Truth value of a string, and \<^verbatim>\<open>any\<close> over a set of strings.\<close>

definition truthy :: "string \<Rightarrow> bool" where
  "truthy s = (s \<noteq> [])"

definition py_any :: "string set \<Rightarrow> bool" where
  "py_any S = (\<exists>x\<in>S. truthy x)"

text \<open>\<^verbatim>\<open>not user_info\<close>: \<^verbatim>\<open>None\<close> and the empty dictionary are false.\<close>

fun py_not :: "user_info option \<Rightarrow> bool" where
  "py_not None = True"
| "py_not (Some d) = (d = [])"

text \<open>
  The configuration traits, read-only once the hub runs. \<^verbatim>\<open>url_concat\<close> is tornado's;
  a URL is kept as its base and the query parameters added to it.
\<close>

record config =
  client_id :: string
  client_secret :: string
  validate_server_cert :: bool
  ca_certs :: string
  system_ca_certs :: string
  token_url :: string
  userdata_url :: string
  allowed_groups :: "string set"
  admin_groups :: "string set"

datatype url = Url string "(string \<times> string) list"

definition url_concat :: "string \<Rightarrow> (string \<times> string) list \<Rightarrow> url" where
  "url_concat u params = Url u params"

record http_request =
  req_url :: url
  req_method :: string
  req_validate_cert :: bool
  req_ca_certs :: string
  req_headers :: "(string \<times> string) list"
  req_body :: "string option"

datatype log_entry =
    Info string
  | Warning string "pyval list"

text \<open>
  The mutable part of the authenticator: the certificate-preference flag, and, for the
  sake of the model, the requests it has sent and the messages it has logged, oldest first.
\<close>

record state =
  use_ca_certs_for_token_request :: bool
  sent :: "http_request list"
  logged :: "log_entry list"

text \<open>
  \<^verbatim>\<open>self.fetch\<close> belongs to the base class \<^verbatim>\<open>OAuthenticator\<close>; it is a parameter here. The
  network answers the \<open>n\<close>-th request of a run (counted from 0) with an exception or a
  decoded body; the token endpoint and the user-info endpoint each have their own body type.
\<close>

record network =
  token_endpoint :: "nat \<Rightarrow> http_request \<Rightarrow> exn + token_response"
  userdata_endpoint :: "nat \<Rightarrow> http_request \<Rightarrow> exn + openshift_user"

definition fetch_token :: "network \<Rightarrow> http_request \<Rightarrow> state \<Rightarrow> (exn + token_response) \<times> state" where
  "fetch_token net req s = (token_endpoint net (length (sent s)) req, s\<lparr>sent := sent s @ [req]\<rparr>)"

definition fetch_user :: "network \<Rightarrow> http_request \<Rightarrow> state \<Rightarrow> (exn + openshift_user) \<times> state" where
  "fetch_user net req s = (userdata_endpoint net (length (sent s)) req, s\<lparr>sent := sent s @ [req]\<rparr>)"

definition log_info :: "string \<Rightarrow> state \<Rightarrow> state" where
  "log_info msg s = s\<lparr>logged := logged s @ [Info msg]\<rparr>"

definition log_warning :: "string \<Rightarrow> pyval list \<Rightarrow> state \<Rightarrow> state" where
  "log_warning msg args s = s\<lparr>logged := logged s @ [Warning msg args]\<rparr>"

text \<open>The request handler and the hub's user object, as far as the module calls them.\<close>

record handler =
  get_argument :: "string \<Rightarrow> exn + string"

record hub_user =
  get_auth_state :: "auth_state option"
  stop_calls :: nat

definition stop :: "hub_user \<Rightarrow> hub_user" where
  "stop user = user\<lparr>stop_calls := Suc (stop_calls user)\<rparr>"

section \<open>The class body\<close>

text \<open>
  \<^verbatim>\<open>ca_certs = Unicode(config=True)\<close> binds, in the class body, a trait descriptor object,
  and \<^verbatim>\<open>use_ca_certs_for_token_request = True if ca_certs else False\<close> is evaluated
  there, once, on that object. An object whose class defines neither \<^verbatim>\<open>__bool__\<close> nor
  \<^verbatim>\<open>__len__\<close> is true.
\<close>

datatype class_value =
    Unicode_trait
  | Str_value string

fun truthy_class_value :: "class_value \<Rightarrow> bool" where
  "truthy_class_value Unicode_trait = True"
| "truthy_class_value (Str_value s) = truthy s"

definition class_ca_certs :: class_value where
  "class_ca_certs = Unicode_trait"

definition class_use_ca_certs_for_token_request :: bool where
  "class_use_ca_certs_for_token_request = (if truthy_class_value class_ca_certs then True else False)"

text \<open>A freshly constructed authenticator reads the flag from the class.\<close>

definition new_authenticator :: state where
  "new_authenticator =
     \<lparr>use_ca_certs_for_token_request = class_use_ca_certs_for_token_request, sent = [], logged = []\<rparr>"

section \<open>The methods\<close>

definition user_in_groups :: "string set \<Rightarrow> string set \<Rightarrow> bool" where
  "user_in_groups user_groups allowed_groups' = py_any (user_groups \<inter> allowed_groups')"

text \<open>
  \<^verbatim>\<open>set(user_info['auth_state']['openshift_user']['groups'])\<close>: the first subscript may
  miss the key, the second fails on a value that is not a dictionary.
\<close>

definition user_groups_of :: "user_info \<Rightarrow> exn + string set" where
  "user_groups_of user_info =
     (case getitem user_info ''auth_state'' of
        Inl e \<Rightarrow> Inl e
      | Inr (PAuthState a) \<Rightarrow> Inr (set (groups (openshift_user a)))
      | Inr _ \<Rightarrow> Inl TypeError)"

text \<open>\<^verbatim>\<open>_add_openshift_group_info\<close> (an Isabelle name cannot start with an underscore).\<close>

definition add_openshift_group_info ::
  "config \<Rightarrow> user_info \<Rightarrow> state \<Rightarrow> (exn + user_info option) \<times> state" where
  "add_openshift_group_info cfg user_info s =
     (case user_groups_of user_info of
        Inl e \<Rightarrow> (Inl e, s)
      | Inr user_groups \<Rightarrow>
         (case getitem user_info ''name'' of
            Inl e \<Rightarrow> (Inl e, s)
          | Inr username \<Rightarrow>
             (let is_admin = (if admin_groups cfg \<noteq> {}
                              then Some (user_in_groups user_groups (admin_groups cfg)) else None);
                  user_in_allowed_group = user_in_groups user_groups (allowed_groups cfg)
              in if admin_groups cfg \<noteq> {} \<and> (is_admin = Some True \<or> user_in_allowed_group)
                 then (Inr (Some (AList.update ''admin'' (PBool (is_admin = Some True)) user_info)), s)
                 else if user_in_allowed_group
                 then (Inr (Some user_info), s)
                 else (Inr None,
                       log_warning ''username:{username} User not in any of the allowed/admin groups''
                         [username] s))))"

definition userdata_request :: "config \<Rightarrow> string \<Rightarrow> http_request" where
  "userdata_request cfg access_token' =
     \<lparr>req_url = Url (userdata_url cfg) [],
      req_method = ''GET'',
      req_validate_cert = validate_server_cert cfg,
      req_ca_certs = ca_certs cfg,
      req_headers = [(''Accept'', ''application/json''),
                     (''User-Agent'', ''JupyterHub''),
                     (''Authorization'', ''Bearer '' @ access_token')],
      req_body = None\<rparr>"

text \<open>\<^verbatim>\<open>_get_openshift_user_info\<close>.\<close>

definition get_openshift_user_info ::
  "config \<Rightarrow> network \<Rightarrow> string \<Rightarrow> state \<Rightarrow> (exn + user_info option) \<times> state" where
  "get_openshift_user_info cfg net access_token' s =
     (case fetch_user net (userdata_request cfg access_token') s of
        (Inl ex, s1) \<Rightarrow>
          (case http_code ex of
             Some c \<Rightarrow> if c = 401 then (Inr None, s1) else (Inl ex, s1)
           | None \<Rightarrow> (Inl ex, s1))
      | (Inr ocp_user, s1) \<Rightarrow>
          (let username = name (metadata ocp_user);
               user_info = [(''name'', PStr username),
                            (''auth_state'',
                             PAuthState \<lparr>access_token = access_token', openshift_user = ocp_user\<rparr>)]
           in if allowed_groups cfg \<noteq> {} \<or> admin_groups cfg \<noteq> {}
              then add_openshift_group_info cfg user_info s1
              else (Inr (Some user_info), s1)))"

definition token_request :: "config \<Rightarrow> state \<Rightarrow> url \<Rightarrow> http_request" where
  "token_request cfg s u =
     \<lparr>req_url = u,
      req_method = ''POST'',
      req_validate_cert = validate_server_cert cfg,
      req_ca_certs = (if use_ca_certs_for_token_request s then ca_certs cfg else system_ca_certs cfg),
      req_headers = [(''Accept'', ''application/json'')],
      req_body = Some ''''\<rparr>"

definition token_url_of :: "config \<Rightarrow> string \<Rightarrow> url" where
  "token_url_of cfg code' =
     url_concat (token_url cfg)
       [(''client_id'', client_id cfg),
        (''client_secret'', client_secret cfg),
        (''grant_type'', ''authorization_code''),
        (''code'', code')]"

definition authenticate ::
  "config \<Rightarrow> network \<Rightarrow> handler \<Rightarrow> state \<Rightarrow> (exn + user_info option) \<times> state" where
  "authenticate cfg net handler' s =
     (case get_argument handler' ''code'' of
        Inl e \<Rightarrow> (Inl e, s)
      | Inr code' \<Rightarrow>
         (let u = token_url_of cfg code' in
          case fetch_token net (token_request cfg s u) s of
            (Inr resp, s1) \<Rightarrow> get_openshift_user_info cfg net (resp_access_token resp) s1
          | (Inl ex, s1) \<Rightarrow>
              if is_CurlError ex then
                (let certs = (if use_ca_certs_for_token_request s1
                              then ''system ca certs'' else ''ca certs'');
                     s2 = log_info (''Retrying oauth token request with '' @ certs) s1;
                     s3 = s2\<lparr>use_ca_certs_for_token_request := \<not> use_ca_certs_for_token_request s2\<rparr>
                 in case fetch_token net (token_request cfg s3 u) s3 of
                      (Inr resp, s4) \<Rightarrow> get_openshift_user_info cfg net (resp_access_token resp) s4
                    | (Inl ex', s4) \<Rightarrow> (Inl ex', s4))
              else (Inl ex, s1)))"

definition refresh_user ::
  "config \<Rightarrow> network \<Rightarrow> hub_user \<Rightarrow> state \<Rightarrow> (exn + user_info option) \<times> state \<times> hub_user" where
  "refresh_user cfg net user s =
     (case get_auth_state user of
        None \<Rightarrow> (Inl TypeError, s, user)
      | Some a \<Rightarrow>
         (case get_openshift_user_info cfg net (access_token a) s of
            (Inl e, s1) \<Rightarrow> (Inl e, s1, user)
          | (Inr user_info, s1) \<Rightarrow>
              (Inr user_info, s1, if py_not user_info then stop user else user)))"

section \<open>Example inputs\<close>

text \<open>Concrete configurations, users, handlers and networks on which the theorems are run.\<close>

definition example_config :: "string set \<Rightarrow> string set \<Rightarrow> config" where
  "example_config allowed admin =
     \<lparr>client_id = ''jupyterhub'',
      client_secret = ''s3cret'',
      validate_server_cert = True,
      ca_certs = ''/run/secrets/kubernetes.io/serviceaccount/ca.crt'',
      system_ca_certs = ''/etc/pki/tls/cert.pem'',
      token_url = ''https://oauth.example/oauth/token'',
      userdata_url = ''https://api.example/apis/user.openshift.io/v1/users/~'',
      allowed_groups = allowed,
      admin_groups = admin\<rparr>"

definition example_user :: "string list \<Rightarrow> openshift_user" where
  "example_user gs = \<lparr>metadata = \<lparr>name = ''alice''\<rparr>, groups = gs\<rparr>"

definition example_handler :: handler where
  "example_handler =
     \<lparr>get_argument = (\<lambda>k. if k = ''code'' then Inr ''c0de'' else Inl (MissingArgumentError k))\<rparr>"

definition token_ok :: "exn + token_response" where
  "token_ok = Inr \<lparr>resp_access_token = ''t0ken''\<rparr>"

text \<open>
  \<open>example_network t u\<close>: the token endpoint answers as \<open>t\<close> says, by the number of
  the request, the user-info endpoint always with \<open>u\<close>.
\<close>

definition example_network :: "(nat \<Rightarrow> exn + token_response) \<Rightarrow> (exn + openshift_user) \<Rightarrow> network" where
  "example_network t u = \<lparr>token_endpoint = (\<lambda>n r. t n), userdata_endpoint = (\<lambda>n r. u)\<rparr>"

definition always_ok :: "nat \<Rightarrow> exn + token_response" where
  "always_ok n = token_ok"

definition curl_error_once :: "nat \<Rightarrow> exn + token_response" where
  "curl_error_once n = (if n = 0 then Inl CurlError else token_ok)"

definition curl_error_always :: "nat \<Rightarrow> exn + token_response" where
  "curl_error_always n = Inl CurlError"

definition example_hub_user :: hub_user where
  "example_hub_user =
     \<lparr>get_auth_state = Some \<lparr>access_token = ''t0ken'', openshift_user = example_user [''users'']\<rparr>,
      stop_calls = 0\<rparr>"

text \<open>The dictionary \<^verbatim>\<open>_get_openshift_user_info\<close> builds before any group check.\<close>

definition base_user_info :: "string \<Rightarrow> openshift_user \<Rightarrow> user_info" where
  "base_user_info tok u =
     [(''name'', PStr (name (metadata u))),
      (''auth_state'', PAuthState \<lparr>access_token = tok, openshift_user = u\<rparr>)]"

section \<open>Group membership\<close>

lemma user_in_groups_iff: "user_in_groups A B = (\<exists>g. g \<in> A \<and> g \<in> B \<and> g \<noteq> [])"
  by (auto simp: user_in_groups_def py_any_def truthy_def)

lemma user_in_groups_simps:
  "user_in_groups {} B = False"
  "user_in_groups A {} = False"
  "user_in_groups (insert a A) B = ((a \<in> B \<and> a \<noteq> []) \<or> user_in_groups A B)"
  by (auto simp: user_in_groups_iff)

text \<open>
  C9. \<^verbatim>\<open>user_in_groups\<close> is true exactly when the two sets have a common element that is
  not the empty string; when the empty string is the only common name it is false.
\<close>

theorem user_in_groups_iff_truthy_common:
  "(user_in_groups user_groups configured
      = (\<exists>g. g \<in> user_groups \<inter> configured \<and> g \<noteq> []))
   \<and> (user_groups \<inter> configured = {[]} \<longrightarrow> \<not> user_in_groups user_groups configured)"
  by (auto simp: user_in_groups_def py_any_def truthy_def)

theorem user_in_groups_iff_truthy_common_witness:
  "{[], ''users''} \<inter> {[], ''admins''} = {[]::string}
   \<and> \<not> user_in_groups {[], ''users''} {[], ''admins''}
   \<and> user_in_groups {[], ''users''} {''users''}"
proof -
  have i: "{[], ''users''} \<inter> {[], ''admins''} = {[]::string}" by auto
  have "\<not> user_in_groups {[], ''users''} {[], ''admins''}"
    using user_in_groups_iff_truthy_common [of "{[], ''users''}" "{[], ''admins''}"] i by blast
  moreover have "user_in_groups {[], ''users''} {''users''}"
    using user_in_groups_iff_truthy_common [of "{[], ''users''}" "{''users''}"] by auto
  ultimately show ?thesis using i by blast
qed

section \<open>The user and group lookup\<close>

lemma get_openshift_user_info_Inl:
  assumes "userdata_endpoint net (length (sent s)) (userdata_request cfg tok) = Inl ex"
  shows "get_openshift_user_info cfg net tok s =
           (if ex = HTTPError 401 then Inr None else Inl ex,
            s\<lparr>sent := sent s @ [userdata_request cfg tok]\<rparr>)"
  using assms by (cases ex) (simp_all add: get_openshift_user_info_def fetch_user_def)

lemma add_openshift_group_info_base:
  "add_openshift_group_info cfg (base_user_info tok u) s =
     (if admin_groups cfg \<noteq> {}
         \<and> (user_in_groups (set (groups u)) (admin_groups cfg)
              \<or> user_in_groups (set (groups u)) (allowed_groups cfg))
      then (Inr (Some (base_user_info tok u
                        @ [(''admin'', PBool (user_in_groups (set (groups u)) (admin_groups cfg)))])), s)
      else if user_in_groups (set (groups u)) (allowed_groups cfg)
      then (Inr (Some (base_user_info tok u)), s)
      else (Inr None,
            log_warning ''username:{username} User not in any of the allowed/admin groups''
              [PStr (name (metadata u))] s))"
  by (simp add: add_openshift_group_info_def user_groups_of_def getitem_def base_user_info_def)

lemma get_openshift_user_info_Inr:
  assumes "userdata_endpoint net (length (sent s)) (userdata_request cfg tok) = Inr u"
  shows "get_openshift_user_info cfg net tok s =
           (if allowed_groups cfg \<noteq> {} \<or> admin_groups cfg \<noteq> {}
            then add_openshift_group_info cfg (base_user_info tok u)
                   (s\<lparr>sent := sent s @ [userdata_request cfg tok]\<rparr>)
            else (Inr (Some (base_user_info tok u)),
                  s\<lparr>sent := sent s @ [userdata_request cfg tok]\<rparr>))"
  using assms
  by (simp add: get_openshift_user_info_def fetch_user_def base_user_info_def Let_def)

lemma sent_add_openshift_group_info:
  "sent (snd (add_openshift_group_info cfg ui s)) = sent s"
  by (simp add: add_openshift_group_info_def log_warning_def Let_def split: sum.splits pyval.splits)

lemma sent_get_openshift_user_info:
  "sent (snd (get_openshift_user_info cfg net tok s)) = sent s @ [userdata_request cfg tok]"
proof (cases "userdata_endpoint net (length (sent s)) (userdata_request cfg tok)")
  case (Inl ex)
  then show ?thesis by (simp add: get_openshift_user_info_Inl)
next
  case (Inr u)
  then show ?thesis by (simp add: get_openshift_user_info_Inr sent_add_openshift_group_info)
qed

lemma get_openshift_user_info_Some_cases:
  assumes "fst (get_openshift_user_info cfg net tok s) = Inr (Some ui)"
  shows "\<exists>u. userdata_endpoint net (length (sent s)) (userdata_request cfg tok) = Inr u
             \<and> (ui = base_user_info tok u
                 \<or> ui = base_user_info tok u
                          @ [(''admin'', PBool (user_in_groups (set (groups u)) (admin_groups cfg)))])"
proof (cases "userdata_endpoint net (length (sent s)) (userdata_request cfg tok)")
  case (Inl ex)
  with assms show ?thesis by (simp add: get_openshift_user_info_Inl split: if_splits)
next
  case (Inr u)
  with assms show ?thesis
    by (auto simp: get_openshift_user_info_Inr add_openshift_group_info_base split: if_splits)
qed

text \<open>
  C3. When the user-info endpoint answers 401 the lookup returns \<^verbatim>\<open>None\<close> and raises
  nothing; an HTTP error of any other status, the curl error among them, reaches the caller.
\<close>

theorem lookup_401_is_no_user:
  "(userdata_endpoint net (length (sent s)) (userdata_request cfg tok) = Inl (HTTPError 401)
      \<longrightarrow> fst (get_openshift_user_info cfg net tok s) = Inr None)
   \<and> (userdata_endpoint net (length (sent s)) (userdata_request cfg tok) = Inl (HTTPError c)
        \<and> c \<noteq> 401
      \<longrightarrow> fst (get_openshift_user_info cfg net tok s) = Inl (HTTPError c))
   \<and> (userdata_endpoint net (length (sent s)) (userdata_request cfg tok) = Inl CurlError
      \<longrightarrow> fst (get_openshift_user_info cfg net tok s) = Inl CurlError)"
  by (simp add: get_openshift_user_info_Inl)

theorem lookup_401_is_no_user_witness:
  "fst (get_openshift_user_info (example_config {} {})
          (example_network always_ok (Inl (HTTPError 401))) ''t0ken'' new_authenticator) = Inr None
   \<and> fst (get_openshift_user_info (example_config {} {})
          (example_network always_ok (Inl (HTTPError 500))) ''t0ken'' new_authenticator)
       = Inl (HTTPError 500)"
proof -
  have a: "userdata_endpoint (example_network always_ok (Inl (HTTPError 401)))
             (length (sent new_authenticator))
             (userdata_request (example_config {} {}) ''t0ken'') = Inl (HTTPError 401)"
    by (simp add: example_network_def)
  have b: "userdata_endpoint (example_network always_ok (Inl (HTTPError 500)))
             (length (sent new_authenticator))
             (userdata_request (example_config {} {}) ''t0ken'') = Inl (HTTPError 500)
           \<and> (500::nat) \<noteq> 401"
    by (simp add: example_network_def)
  show ?thesis
    using a b
      lookup_401_is_no_user [of "example_network always_ok (Inl (HTTPError 401))"
        new_authenticator "example_config {} {}" "''t0ken''" 500]
      lookup_401_is_no_user [of "example_network always_ok (Inl (HTTPError 500))"
        new_authenticator "example_config {} {}" "''t0ken''" 500]
    by blast
qed

section \<open>Admission and the admin flag\<close>

lemma lookup_with_groups:
  assumes "userdata_endpoint net (length (sent s)) (userdata_request cfg tok) = Inr u"
  shows "fst (get_openshift_user_info cfg net tok s) =
           (if admin_groups cfg \<noteq> {}
            then (if user_in_groups (set (groups u)) (admin_groups cfg)
                     \<or> user_in_groups (set (groups u)) (allowed_groups cfg)
                  then Inr (Some (base_user_info tok u
                         @ [(''admin'', PBool (user_in_groups (set (groups u)) (admin_groups cfg)))]))
                  else Inr None)
            else if allowed_groups cfg \<noteq> {}
            then (if user_in_groups (set (groups u)) (allowed_groups cfg)
                  then Inr (Some (base_user_info tok u)) else Inr None)
            else Inr (Some (base_user_info tok u)))"
  using assms by (simp add: get_openshift_user_info_Inr add_openshift_group_info_base)

lemma example_lookup:
  "userdata_endpoint (example_network t (Inr u)) n r = Inr u"
  by (simp add: example_network_def)

lemmas example_simps =
  example_config_def example_user_def base_user_info_def new_authenticator_def
  class_use_ca_certs_for_token_request_def class_ca_certs_def user_in_groups_simps

text \<open>
  C1, as amended. Given the user object the endpoint answered with: when \<^verbatim>\<open>admin_groups\<close>
  is non-empty the lookup returns a record exactly when the user's groups share a non-empty
  name with \<^verbatim>\<open>admin_groups\<close> or with \<^verbatim>\<open>allowed_groups\<close>; when only
  \<^verbatim>\<open>allowed_groups\<close> is non-empty, exactly when they share a non-empty name with it;
  when both are empty the record built from the answer is returned as it is and nothing
  is logged. Whenever no record is returned the result is \<^verbatim>\<open>None\<close>, not an exception.
\<close>

theorem admission_by_named_common_group:
  assumes "userdata_endpoint net (length (sent s)) (userdata_request cfg tok) = Inr u"
  shows "(admin_groups cfg \<noteq> {} \<longrightarrow>
            (\<exists>ui. fst (get_openshift_user_info cfg net tok s) = Inr (Some ui))
              = ((\<exists>g. g \<in> set (groups u) \<and> g \<in> admin_groups cfg \<and> g \<noteq> [])
                 \<or> (\<exists>g. g \<in> set (groups u) \<and> g \<in> allowed_groups cfg \<and> g \<noteq> [])))
       \<and> (admin_groups cfg = {} \<and> allowed_groups cfg \<noteq> {} \<longrightarrow>
            (\<exists>ui. fst (get_openshift_user_info cfg net tok s) = Inr (Some ui))
              = (\<exists>g. g \<in> set (groups u) \<and> g \<in> allowed_groups cfg \<and> g \<noteq> []))
       \<and> (admin_groups cfg = {} \<and> allowed_groups cfg = {} \<longrightarrow>
            get_openshift_user_info cfg net tok s
              = (Inr (Some (base_user_info tok u)), s\<lparr>sent := sent s @ [userdata_request cfg tok]\<rparr>))
       \<and> ((\<nexists>ui. fst (get_openshift_user_info cfg net tok s) = Inr (Some ui)) \<longrightarrow>
            fst (get_openshift_user_info cfg net tok s) = Inr None)"
proof -
  have "admin_groups cfg = {} \<and> allowed_groups cfg = {} \<longrightarrow>
          get_openshift_user_info cfg net tok s
            = (Inr (Some (base_user_info tok u)), s\<lparr>sent := sent s @ [userdata_request cfg tok]\<rparr>)"
    using assms by (simp add: get_openshift_user_info_Inr)
  then show ?thesis
    by (simp add: lookup_with_groups [OF assms] user_in_groups_iff)
qed

theorem admission_by_named_common_group_witness:
  "fst (get_openshift_user_info (example_config {''users''} {''admins''})
          (example_network always_ok (Inr (example_user [''dev'', ''users'']))) ''t0ken''
          new_authenticator)
     = Inr (Some (base_user_info ''t0ken'' (example_user [''dev'', ''users''])
                   @ [(''admin'', PBool False)]))
   \<and> fst (get_openshift_user_info (example_config {''users''} {''admins''})
          (example_network always_ok (Inr (example_user [''dev'']))) ''t0ken''
          new_authenticator)
     = Inr None
   \<and> fst (get_openshift_user_info (example_config {} {})
          (example_network always_ok (Inr (example_user [''dev'']))) ''t0ken''
          new_authenticator)
     = Inr (Some (base_user_info ''t0ken'' (example_user [''dev''])))"
proof -
  let ?cfg = "example_config {''users''} {''admins''}"
  let ?net = "\<lambda>gs. example_network always_ok (Inr (example_user gs))"
  have h: "userdata_endpoint (?net gs) (length (sent new_authenticator))
             (userdata_request c ''t0ken'') = Inr (example_user gs)" for gs c
    by (rule example_lookup)
  note a = admission_by_named_common_group [OF h [of "[''dev'', ''users'']" ?cfg]]
  note b = admission_by_named_common_group [OF h [of "[''dev'']" ?cfg]]
  note c = admission_by_named_common_group [OF h [of "[''dev'']" "example_config {} {}"]]
  have 1: "\<exists>ui. fst (get_openshift_user_info ?cfg (?net [''dev'', ''users'']) ''t0ken''
                        new_authenticator) = Inr (Some ui)"
    using a by (simp add: example_config_def example_user_def)
  have 2: "fst (get_openshift_user_info ?cfg (?net [''dev'']) ''t0ken'' new_authenticator) = Inr None"
    using b by (simp add: example_config_def example_user_def)
  have 3: "fst (get_openshift_user_info (example_config {} {}) (?net [''dev'']) ''t0ken''
                  new_authenticator)
             = Inr (Some (base_user_info ''t0ken'' (example_user [''dev''])))"
    using c by (simp add: example_config_def)
  from 1 have "fst (get_openshift_user_info ?cfg (?net [''dev'', ''users'']) ''t0ken''
                      new_authenticator)
                 = Inr (Some (base_user_info ''t0ken'' (example_user [''dev'', ''users''])
                         @ [(''admin'', PBool False)]))"
    by (simp add: lookup_with_groups [OF example_lookup] example_simps)
  with 2 3 show ?thesis by simp
qed

text \<open>
  C1 as it is written fails where the only common name is the empty string: the groups
  intersect \<^verbatim>\<open>admin_groups\<close>, and the lookup returns \<^verbatim>\<open>None\<close>.
\<close>

theorem admission_by_intersection_counterexample:
  "admin_groups (example_config {} {''''}) \<noteq> {}
   \<and> set (groups (example_user [''''])) \<inter> admin_groups (example_config {} {''''}) \<noteq> {}
   \<and> fst (get_openshift_user_info (example_config {} {''''})
            (example_network always_ok (Inr (example_user ['''']))) ''t0ken'' new_authenticator)
       = Inr None"
  by (simp add: lookup_with_groups [OF example_lookup] example_simps)

text \<open>
  C2, as amended. When \<^verbatim>\<open>admin_groups\<close> is non-empty and the lookup returns a record,
  its \<^verbatim>\<open>'admin'\<close> entry is \<^verbatim>\<open>True\<close> exactly when the user's groups share a non-empty
  name with \<^verbatim>\<open>admin_groups\<close>, and \<^verbatim>\<open>False\<close> otherwise.
\<close>

theorem admin_flag_iff_named_admin_group:
  assumes "userdata_endpoint net (length (sent s)) (userdata_request cfg tok) = Inr u"
    and "admin_groups cfg \<noteq> {}"
    and "fst (get_openshift_user_info cfg net tok s) = Inr (Some ui)"
  shows "(map_of ui ''admin'' = Some (PBool True))
           = (\<exists>g. g \<in> set (groups u) \<and> g \<in> admin_groups cfg \<and> g \<noteq> [])
       \<and> (map_of ui ''admin'' = Some (PBool False))
           = (\<nexists>g. g \<in> set (groups u) \<and> g \<in> admin_groups cfg \<and> g \<noteq> [])"
  using assms(2,3) unfolding lookup_with_groups [OF assms(1)]
  by (auto simp: base_user_info_def user_in_groups_iff split: if_splits)

theorem admin_flag_iff_named_admin_group_witness:
  "fst (get_openshift_user_info (example_config {''users''} {''admins''})
          (example_network always_ok (Inr (example_user [''admins'', ''users''])))
          ''t0ken'' new_authenticator)
     = Inr (Some (base_user_info ''t0ken'' (example_user [''admins'', ''users''])
                   @ [(''admin'', PBool True)]))
   \<and> map_of (base_user_info ''t0ken'' (example_user [''admins'', ''users''])
            @ [(''admin'', PBool True)]) ''admin'' = Some (PBool True)
   \<and> (\<exists>g. g \<in> set (groups (example_user [''admins'', ''users'']))
          \<and> g \<in> admin_groups (example_config {''users''} {''admins''}) \<and> g \<noteq> [])"
proof -
  let ?cfg = "example_config {''users''} {''admins''}"
  let ?u = "example_user [''admins'', ''users'']"
  let ?net = "example_network always_ok (Inr ?u)"
  let ?ui = "base_user_info ''t0ken'' ?u @ [(''admin'', PBool True)]"
  have h1: "userdata_endpoint ?net (length (sent new_authenticator))
              (userdata_request ?cfg ''t0ken'') = Inr ?u"
    by (rule example_lookup)
  have h2: "admin_groups ?cfg \<noteq> {}"
    by (simp add: example_config_def)
  have h3: "fst (get_openshift_user_info ?cfg ?net ''t0ken'' new_authenticator) = Inr (Some ?ui)"
    by (simp add: lookup_with_groups [OF example_lookup] example_simps)
  have m: "map_of ?ui ''admin'' = Some (PBool True)"
    by (simp add: base_user_info_def)
  from admin_flag_iff_named_admin_group [OF h1 h2 h3] m h3 show ?thesis
    by blast
qed

text \<open>
  C2 as it is written fails where the only name shared with \<^verbatim>\<open>admin_groups\<close> is the
  empty string: the user is admitted through \<^verbatim>\<open>allowed_groups\<close>, the groups intersect
  \<^verbatim>\<open>admin_groups\<close>, and the record says \<^verbatim>\<open>'admin': False\<close>.
\<close>

theorem admin_flag_by_intersection_counterexample:
  "admin_groups (example_config {''users''} {''''}) \<noteq> {}
   \<and> set (groups (example_user ['''', ''users'']))
        \<inter> admin_groups (example_config {''users''} {''''}) \<noteq> {}
   \<and> fst (get_openshift_user_info (example_config {''users''} {''''})
            (example_network always_ok (Inr (example_user ['''', ''users''])))
            ''t0ken'' new_authenticator)
       = Inr (Some (base_user_info ''t0ken'' (example_user ['''', ''users''])
                     @ [(''admin'', PBool False)]))"
  by (simp add: lookup_with_groups [OF example_lookup] example_simps)

text \<open>
  C7, as amended. A user whose groups share a non-empty name with \<^verbatim>\<open>allowed_groups\<close>
  and no name with \<^verbatim>\<open>admin_groups\<close> is admitted, and the record never says
  \<^verbatim>\<open>'admin': True\<close>: it has no \<^verbatim>\<open>'admin'\<close> entry when \<^verbatim>\<open>admin_groups\<close> is empty, and
  \<^verbatim>\<open>'admin': False\<close> when it is not.
\<close>

theorem allowed_only_user_is_not_admin:
  assumes "userdata_endpoint net (length (sent s)) (userdata_request cfg tok) = Inr u"
    and "\<exists>g. g \<in> set (groups u) \<and> g \<in> allowed_groups cfg \<and> g \<noteq> []"
    and "set (groups u) \<inter> admin_groups cfg = {}"
  shows "\<exists>ui. fst (get_openshift_user_info cfg net tok s) = Inr (Some ui)
            \<and> map_of ui ''admin'' = (if admin_groups cfg = {} then None else Some (PBool False))
            \<and> map_of ui ''admin'' \<noteq> Some (PBool True)"
proof -
  have a: "user_in_groups (set (groups u)) (allowed_groups cfg)"
    using assms(2) by (simp add: user_in_groups_iff)
  have b: "\<not> user_in_groups (set (groups u)) (admin_groups cfg)"
    using assms(3) by (auto simp: user_in_groups_iff)
  have c: "allowed_groups cfg \<noteq> {}"
    using assms(2) by auto
  show ?thesis
    unfolding lookup_with_groups [OF assms(1)] using a b c
    by (simp add: base_user_info_def)
qed

theorem allowed_only_user_is_not_admin_witness:
  "fst (get_openshift_user_info (example_config {''users''} {})
          (example_network always_ok (Inr (example_user [''users'']))) ''t0ken'' new_authenticator)
     = Inr (Some (base_user_info ''t0ken'' (example_user [''users''])))
   \<and> map_of (base_user_info ''t0ken'' (example_user [''users''])) ''admin'' = None"
proof -
  let ?cfg = "example_config {''users''} {}"
  let ?u = "example_user [''users'']"
  let ?net = "example_network always_ok (Inr ?u)"
  have h1: "userdata_endpoint ?net (length (sent new_authenticator))
              (userdata_request ?cfg ''t0ken'') = Inr ?u"
    by (rule example_lookup)
  have h2: "\<exists>g. g \<in> set (groups ?u) \<and> g \<in> allowed_groups ?cfg \<and> g \<noteq> []"
    by (simp add: example_config_def example_user_def)
  have h3: "set (groups ?u) \<inter> admin_groups ?cfg = {}"
    by (simp add: example_config_def)
  from allowed_only_user_is_not_admin [OF h1 h2 h3]
  obtain ui where ui: "fst (get_openshift_user_info ?cfg ?net ''t0ken'' new_authenticator)
                         = Inr (Some ui)"
    and adm: "map_of ui ''admin'' = (if admin_groups ?cfg = {} then None else Some (PBool False))"
    by blast
  have "fst (get_openshift_user_info ?cfg ?net ''t0ken'' new_authenticator)
          = Inr (Some (base_user_info ''t0ken'' ?u))"
    by (simp add: lookup_with_groups [OF example_lookup] example_simps)
  with ui have "ui = base_user_info ''t0ken'' ?u" by simp
  with ui adm show ?thesis by (simp add: example_config_def)
qed

text \<open>
  C7 as it is written fails when \<^verbatim>\<open>admin_groups\<close> is configured: a user in
  \<^verbatim>\<open>allowed_groups\<close> only is admitted with an \<^verbatim>\<open>'admin'\<close> entry, set to \<^verbatim>\<open>False\<close>.
\<close>

theorem allowed_only_user_has_admin_entry_counterexample:
  "set (groups (example_user [''users''])) \<inter> allowed_groups (example_config {''users''} {''admins''}) \<noteq> {}
   \<and> set (groups (example_user [''users''])) \<inter> admin_groups (example_config {''users''} {''admins''}) = {}
   \<and> fst (get_openshift_user_info (example_config {''users''} {''admins''})
            (example_network always_ok (Inr (example_user [''users''])))
            ''t0ken'' new_authenticator)
       = Inr (Some (base_user_info ''t0ken'' (example_user [''users''])
                     @ [(''admin'', PBool False)]))
   \<and> map_of (base_user_info ''t0ken'' (example_user [''users'']) @ [(''admin'', PBool False)])
        ''admin'' = Some (PBool False)"
  by (simp add: lookup_with_groups [OF example_lookup] example_simps)

text \<open>
  C10. Given the user object the endpoint answered with. When \<^verbatim>\<open>admin_groups\<close> is
  non-empty and the user is admitted (in \<^verbatim>\<open>admin_groups\<close> or in \<^verbatim>\<open>allowed_groups\<close>, by
  \<^verbatim>\<open>user_in_groups\<close>), the lookup returns the record with an \<^verbatim>\<open>'admin'\<close> entry added,
  whose value is what \<^verbatim>\<open>user_in_groups\<close> says of the user's groups and \<^verbatim>\<open>admin_groups\<close>:
  an explicit \<^verbatim>\<open>False\<close> for a user admitted through \<^verbatim>\<open>allowed_groups\<close> alone. When
  \<^verbatim>\<open>admin_groups\<close> is empty an admitted user's record is returned with no such entry.
  So a record with the entry is returned exactly when \<^verbatim>\<open>admin_groups\<close> is non-empty and
  the user is admitted, and any record returned has the entry exactly when
  \<^verbatim>\<open>admin_groups\<close> is non-empty.
\<close>

theorem admin_key_iff_admin_groups_configured:
  assumes "userdata_endpoint net (length (sent s)) (userdata_request cfg tok) = Inr u"
  shows "(admin_groups cfg \<noteq> {}
            \<and> (user_in_groups (set (groups u)) (admin_groups cfg)
                 \<or> user_in_groups (set (groups u)) (allowed_groups cfg))
          \<longrightarrow> fst (get_openshift_user_info cfg net tok s)
                = Inr (Some (base_user_info tok u
                       @ [(''admin'', PBool (user_in_groups (set (groups u)) (admin_groups cfg)))])))
       \<and> (admin_groups cfg \<noteq> {}
            \<and> \<not> user_in_groups (set (groups u)) (admin_groups cfg)
            \<and> user_in_groups (set (groups u)) (allowed_groups cfg)
          \<longrightarrow> fst (get_openshift_user_info cfg net tok s)
                = Inr (Some (base_user_info tok u @ [(''admin'', PBool False)])))
       \<and> (admin_groups cfg = {}
            \<and> (allowed_groups cfg = {} \<or> user_in_groups (set (groups u)) (allowed_groups cfg))
          \<longrightarrow> fst (get_openshift_user_info cfg net tok s) = Inr (Some (base_user_info tok u))
              \<and> ''admin'' \<notin> set (map fst (base_user_info tok u)))
       \<and> ((\<exists>ui. fst (get_openshift_user_info cfg net tok s) = Inr (Some ui)
                 \<and> ''admin'' \<in> set (map fst ui))
            = (admin_groups cfg \<noteq> {}
               \<and> (user_in_groups (set (groups u)) (admin_groups cfg)
                    \<or> user_in_groups (set (groups u)) (allowed_groups cfg))))
       \<and> (\<forall>ui. fst (get_openshift_user_info cfg net tok s) = Inr (Some ui) \<longrightarrow>
              (''admin'' \<in> set (map fst ui)) = (admin_groups cfg \<noteq> {})
              \<and> map_of ui ''admin''
                  = (if admin_groups cfg \<noteq> {}
                     then Some (PBool (user_in_groups (set (groups u)) (admin_groups cfg)))
                     else None))"
  unfolding lookup_with_groups [OF assms]
  by (auto simp: base_user_info_def)

theorem admin_key_iff_admin_groups_configured_witness:
  "fst (get_openshift_user_info (example_config {''users''} {''admins''})
          (example_network always_ok (Inr (example_user [''users''])))
          ''t0ken'' new_authenticator)
     = Inr (Some (base_user_info ''t0ken'' (example_user [''users''])
                   @ [(''admin'', PBool False)]))
   \<and> map_of (base_user_info ''t0ken'' (example_user [''users'']) @ [(''admin'', PBool False)])
        ''admin'' = Some (PBool False)
   \<and> fst (get_openshift_user_info (example_config {''users''} {})
          (example_network always_ok (Inr (example_user [''users''])))
          ''t0ken'' new_authenticator)
     = Inr (Some (base_user_info ''t0ken'' (example_user [''users''])))
   \<and> map_of (base_user_info ''t0ken'' (example_user [''users''])) ''admin'' = None"
proof -
  let ?cfg = "example_config {''users''} {''admins''}"
  let ?cfg' = "example_config {''users''} {}"
  let ?u = "example_user [''users'']"
  let ?net = "example_network always_ok (Inr ?u)"
  have h: "userdata_endpoint ?net (length (sent new_authenticator))
             (userdata_request c ''t0ken'') = Inr ?u" for c
    by (rule example_lookup)
  have a: "admin_groups ?cfg \<noteq> {}
           \<and> \<not> user_in_groups (set (groups ?u)) (admin_groups ?cfg)
           \<and> user_in_groups (set (groups ?u)) (allowed_groups ?cfg)"
    by (simp add: example_config_def example_user_def user_in_groups_simps)
  have b: "admin_groups ?cfg' = {}
           \<and> (allowed_groups ?cfg' = {} \<or> user_in_groups (set (groups ?u)) (allowed_groups ?cfg'))"
    by (simp add: example_config_def example_user_def user_in_groups_simps)
  have 1: "fst (get_openshift_user_info ?cfg ?net ''t0ken'' new_authenticator)
             = Inr (Some (base_user_info ''t0ken'' ?u @ [(''admin'', PBool False)]))"
    using admin_key_iff_admin_groups_configured [OF h [of ?cfg]] a by blast
  have 2: "fst (get_openshift_user_info ?cfg' ?net ''t0ken'' new_authenticator)
             = Inr (Some (base_user_info ''t0ken'' ?u))"
    using admin_key_iff_admin_groups_configured [OF h [of ?cfg']] b by blast
  from 1 2 show ?thesis by (simp add: base_user_info_def)
qed

section \<open>The token exchange\<close>

lemma authenticate_Inr:
  assumes "get_argument h ''code'' = Inr c"
    and "token_endpoint net (length (sent s)) (token_request cfg s (token_url_of cfg c)) = Inr resp"
  shows "authenticate cfg net h s =
           get_openshift_user_info cfg net (resp_access_token resp)
             (s\<lparr>sent := sent s @ [token_request cfg s (token_url_of cfg c)]\<rparr>)"
  using assms by (simp add: authenticate_def fetch_token_def)

lemma authenticate_Inl:
  assumes "get_argument h ''code'' = Inr c"
    and "token_endpoint net (length (sent s)) (token_request cfg s (token_url_of cfg c)) = Inl ex"
    and "ex \<noteq> CurlError"
  shows "authenticate cfg net h s =
           (Inl ex, s\<lparr>sent := sent s @ [token_request cfg s (token_url_of cfg c)]\<rparr>)"
  using assms by (cases ex) (simp_all add: authenticate_def fetch_token_def)



lemma authenticate_CurlError:
  assumes "get_argument h ''code'' = Inr c"
    and "token_endpoint net (length (sent s)) (token_request cfg s (token_url_of cfg c)) = Inl CurlError"
  shows "authenticate cfg net h s =
           (let r1 = token_request cfg s (token_url_of cfg c);
                r2 = r1\<lparr>req_ca_certs := (if use_ca_certs_for_token_request s
                                           then system_ca_certs cfg else ca_certs cfg)\<rparr>;
                s4 = \<lparr>use_ca_certs_for_token_request = \<not> use_ca_certs_for_token_request s,
                      sent = sent s @ [r1, r2],
                      logged = logged s @
                        [Info (''Retrying oauth token request with '' @
                                 (if use_ca_certs_for_token_request s
                                  then ''system ca certs'' else ''ca certs''))]\<rparr>
            in case token_endpoint net (Suc (length (sent s))) r2 of
                 Inr resp \<Rightarrow> get_openshift_user_info cfg net (resp_access_token resp) s4
               | Inl ex \<Rightarrow> (Inl ex, s4))"
proof -
  have eq: "s\<lparr>logged := l, use_ca_certs_for_token_request := b, sent := q\<rparr>
          = \<lparr>use_ca_certs_for_token_request = b, sent = q, logged = l\<rparr>" for l b q
    by simp
  show ?thesis
    using assms
    by (simp add: authenticate_def fetch_token_def log_info_def token_request_def Let_def eq
             split: sum.splits)
qed

lemma retry_request:
  "token_request cfg (s\<lparr>use_ca_certs_for_token_request := \<not> use_ca_certs_for_token_request s\<rparr>) u
     = (token_request cfg s u)\<lparr>req_ca_certs := (if use_ca_certs_for_token_request s
                                                 then system_ca_certs cfg else ca_certs cfg)\<rparr>"
  by (simp add: token_request_def)

text \<open>
  C4. When the first token request raises the curl error, the flag is flipped and the
  request is sent once more, the same but for the CA bundle, which is now the other of
  \<^verbatim>\<open>ca_certs\<close> and \<^verbatim>\<open>system_ca_certs\<close>. If the retry is answered, its access token goes
  to the user lookup; if it raises, whatever it raises, the curl error included, that
  exception is the result. Either way the two token requests are the only ones sent.
\<close>

theorem token_request_retried_once:
  assumes "get_argument h ''code'' = Inr c"
    and "token_endpoint net (length (sent s)) (token_request cfg s (token_url_of cfg c)) = Inl CurlError"
  shows "let r1 = token_request cfg s (token_url_of cfg c);
             r2 = token_request cfg
                    (s\<lparr>use_ca_certs_for_token_request := \<not> use_ca_certs_for_token_request s\<rparr>)
                    (token_url_of cfg c);
             s4 = \<lparr>use_ca_certs_for_token_request = \<not> use_ca_certs_for_token_request s,
                   sent = sent s @ [r1, r2],
                   logged = logged s @
                     [Info (''Retrying oauth token request with '' @
                              (if use_ca_certs_for_token_request s
                               then ''system ca certs'' else ''ca certs''))]\<rparr>
         in req_ca_certs r1 = (if use_ca_certs_for_token_request s
                               then ca_certs cfg else system_ca_certs cfg)
          \<and> req_ca_certs r2 = (if use_ca_certs_for_token_request s
                               then system_ca_certs cfg else ca_certs cfg)
          \<and> r2 = r1\<lparr>req_ca_certs := req_ca_certs r2\<rparr>
          \<and> (\<forall>resp. token_endpoint net (Suc (length (sent s))) r2 = Inr resp \<longrightarrow>
                authenticate cfg net h s
                  = get_openshift_user_info cfg net (resp_access_token resp) s4)
          \<and> (\<forall>ex. token_endpoint net (Suc (length (sent s))) r2 = Inl ex \<longrightarrow>
                authenticate cfg net h s = (Inl ex, s4))
          \<and> sent (snd (authenticate cfg net h s))
              = sent s @ [r1, r2]
                @ (case token_endpoint net (Suc (length (sent s))) r2 of
                     Inr resp \<Rightarrow> [userdata_request cfg (resp_access_token resp)]
                   | Inl ex \<Rightarrow> [])"
  unfolding Let_def authenticate_CurlError [OF assms] retry_request
  by (simp add: token_request_def sent_get_openshift_user_info split: sum.splits)

lemma authenticate_reaches_lookup:
  assumes "authenticate cfg net h s = (Inr r, s')"
  shows "\<exists>resp s1 i. length (sent s1) = Suc i
           \<and> token_endpoint net i (sent s1 ! i) = Inr resp
           \<and> get_openshift_user_info cfg net (resp_access_token resp) s1 = (Inr r, s')"
proof (cases "get_argument h ''code''")
  case (Inl e)
  with assms show ?thesis by (simp add: authenticate_def)
next
  case (Inr c)
  let ?r1 = "token_request cfg s (token_url_of cfg c)"
  show ?thesis
  proof (cases "token_endpoint net (length (sent s)) ?r1")
    case (Inr resp)
    let ?s1 = "s\<lparr>sent := sent s @ [?r1]\<rparr>"
    have "length (sent ?s1) = Suc (length (sent s))" by simp
    moreover have "token_endpoint net (length (sent s)) (sent ?s1 ! length (sent s)) = Inr resp"
      using Inr by simp
    moreover have "get_openshift_user_info cfg net (resp_access_token resp) ?s1 = (Inr r, s')"
      using assms authenticate_Inr [OF \<open>get_argument h ''code'' = Inr c\<close> Inr] by simp
    ultimately show ?thesis by blast
  next
    case (Inl ex)
    show ?thesis
    proof (cases "ex = CurlError")
      case False
      with assms authenticate_Inl [OF \<open>get_argument h ''code'' = Inr c\<close> Inl]
      show ?thesis by simp
    next
      case True
      let ?r2 = "?r1\<lparr>req_ca_certs := (if use_ca_certs_for_token_request s
                                        then system_ca_certs cfg else ca_certs cfg)\<rparr>"
      let ?s4 = "\<lparr>use_ca_certs_for_token_request = \<not> use_ca_certs_for_token_request s,
                  sent = sent s @ [?r1, ?r2],
                  logged = logged s @
                    [Info (''Retrying oauth token request with '' @
                             (if use_ca_certs_for_token_request s
                              then ''system ca certs'' else ''ca certs''))]\<rparr>"
      note unf = authenticate_CurlError [OF \<open>get_argument h ''code'' = Inr c\<close> Inl [unfolded True],
          unfolded Let_def]
      show ?thesis
      proof (cases "token_endpoint net (Suc (length (sent s))) ?r2")
        case (Inl ex')
        with assms unf show ?thesis by simp
      next
        case (Inr resp)
        have "length (sent ?s4) = Suc (Suc (length (sent s)))" by simp
        moreover have "token_endpoint net (Suc (length (sent s))) (sent ?s4 ! Suc (length (sent s)))
                         = Inr resp"
          using Inr by (simp add: nth_append)
        moreover have "get_openshift_user_info cfg net (resp_access_token resp) ?s4 = (Inr r, s')"
          using assms unf Inr by simp
        ultimately show ?thesis by blast
      qed
    qed
  qed
qed

text \<open>
  C6. The record a successful authentication returns holds the user's name under
  \<^verbatim>\<open>'name'\<close>; under \<^verbatim>\<open>'auth_state'\<close> the access token the token endpoint answered
  with and the user object the user-info endpoint answered with, to the request that
  carried that token; possibly a boolean under \<^verbatim>\<open>'admin'\<close>; and no other key.
\<close>

theorem authenticate_record_shape:
  assumes "authenticate cfg net h s = (Inr (Some ui), s')"
  shows "\<exists>i resp u.
           length (sent s') = Suc (Suc i)
         \<and> token_endpoint net i (sent s' ! i) = Inr resp
         \<and> sent s' ! Suc i = userdata_request cfg (resp_access_token resp)
         \<and> userdata_endpoint net (Suc i) (sent s' ! Suc i) = Inr u
         \<and> map_of ui ''name'' = Some (PStr (name (metadata u)))
         \<and> map_of ui ''auth_state''
             = Some (PAuthState \<lparr>access_token = resp_access_token resp, openshift_user = u\<rparr>)
         \<and> (map_of ui ''admin'' = None \<or> (\<exists>b. map_of ui ''admin'' = Some (PBool b)))
         \<and> set (map fst ui) \<subseteq> {''name'', ''auth_state'', ''admin''}
         \<and> distinct (map fst ui)"
proof -
  from authenticate_reaches_lookup [OF assms]
  obtain resp s1 i where len: "length (sent s1) = Suc i"
    and tok: "token_endpoint net i (sent s1 ! i) = Inr resp"
    and look: "get_openshift_user_info cfg net (resp_access_token resp) s1 = (Inr (Some ui), s')"
    by blast
  let ?tok = "resp_access_token resp"
  from look have "fst (get_openshift_user_info cfg net ?tok s1) = Inr (Some ui)" by simp
  from get_openshift_user_info_Some_cases [OF this]
  obtain u where u: "userdata_endpoint net (length (sent s1)) (userdata_request cfg ?tok) = Inr u"
    and ui: "ui = base_user_info ?tok u
             \<or> ui = base_user_info ?tok u
                      @ [(''admin'', PBool (user_in_groups (set (groups u)) (admin_groups cfg)))]"
    by blast
  have s': "sent s' = sent s1 @ [userdata_request cfg ?tok]"
    using sent_get_openshift_user_info [of cfg net ?tok s1] look by simp
  have 1: "length (sent s') = Suc (Suc i)" using s' len by simp
  have 2: "token_endpoint net i (sent s' ! i) = Inr resp"
    using tok s' len by (simp add: nth_append)
  have 3: "sent s' ! Suc i = userdata_request cfg ?tok"
    using s' len by (simp add: nth_append)
  have 4: "userdata_endpoint net (Suc i) (sent s' ! Suc i) = Inr u"
    using u 3 len by simp
  have 5: "map_of ui ''name'' = Some (PStr (name (metadata u)))
         \<and> map_of ui ''auth_state''
             = Some (PAuthState \<lparr>access_token = ?tok, openshift_user = u\<rparr>)
         \<and> (map_of ui ''admin'' = None \<or> (\<exists>b. map_of ui ''admin'' = Some (PBool b)))
         \<and> set (map fst ui) \<subseteq> {''name'', ''auth_state'', ''admin''}
         \<and> distinct (map fst ui)"
    using ui by (auto simp: base_user_info_def)
  from 1 2 3 4 5 show ?thesis by blast
qed


lemma example_token:
  "token_endpoint (example_network t u) n r = t n"
  by (simp add: example_network_def)

lemma example_code: "get_argument example_handler ''code'' = Inr ''c0de''"
  by (simp add: example_handler_def)

theorem token_request_retried_once_witness:
  "authenticate (example_config {} {})
     (example_network curl_error_once (Inr (example_user [''users''])))
     example_handler new_authenticator
   = (Inr (Some (base_user_info ''t0ken'' (example_user [''users'']))),
      \<lparr>use_ca_certs_for_token_request = False,
       sent = [token_request (example_config {} {}) new_authenticator
                 (token_url_of (example_config {} {}) ''c0de''),
               (token_request (example_config {} {}) new_authenticator
                 (token_url_of (example_config {} {}) ''c0de''))
                 \<lparr>req_ca_certs := ''/etc/pki/tls/cert.pem''\<rparr>,
               userdata_request (example_config {} {}) ''t0ken''],
       logged = [Info ''Retrying oauth token request with system ca certs'']\<rparr>)
   \<and> authenticate (example_config {} {})
     (example_network curl_error_always (Inr (example_user [''users''])))
     example_handler new_authenticator
   = (Inl CurlError,
      \<lparr>use_ca_certs_for_token_request = False,
       sent = [token_request (example_config {} {}) new_authenticator
                 (token_url_of (example_config {} {}) ''c0de''),
               (token_request (example_config {} {}) new_authenticator
                 (token_url_of (example_config {} {}) ''c0de''))
                 \<lparr>req_ca_certs := ''/etc/pki/tls/cert.pem''\<rparr>],
       logged = [Info ''Retrying oauth token request with system ca certs'']\<rparr>)"
proof -
  let ?cfg = "example_config {} {}"
  let ?u = "example_user [''users'']"
  have first: "token_endpoint (example_network curl_error_once (Inr ?u))
                 (length (sent new_authenticator))
                 (token_request ?cfg new_authenticator (token_url_of ?cfg ''c0de'')) = Inl CurlError"
    by (simp add: example_token new_authenticator_def curl_error_once_def)
  have first': "token_endpoint (example_network curl_error_always (Inr ?u))
                 (length (sent new_authenticator))
                 (token_request ?cfg new_authenticator (token_url_of ?cfg ''c0de'')) = Inl CurlError"
    by (simp add: example_token curl_error_always_def)
  have flag: "use_ca_certs_for_token_request new_authenticator" "sent new_authenticator = []"
    "logged new_authenticator = []"
    by (simp_all add: example_simps)
  have bundles: "system_ca_certs ?cfg = ''/etc/pki/tls/cert.pem''"
    by (simp add: example_config_def)
  have r2: "token_request ?cfg (new_authenticator\<lparr>use_ca_certs_for_token_request := False\<rparr>) v
              = (token_request ?cfg new_authenticator v)\<lparr>req_ca_certs := ''/etc/pki/tls/cert.pem''\<rparr>" for v
    by (simp add: token_request_def example_config_def)
  have once: "curl_error_once 0 = Inl CurlError" "curl_error_once (Suc 0) = token_ok"
    by (simp_all add: curl_error_once_def)
  have always: "curl_error_always n = Inl CurlError" for n
    by (simp add: curl_error_always_def)
  have look: "get_openshift_user_info ?cfg (example_network t (Inr ?u)) ''t0ken'' s0
                = (Inr (Some (base_user_info ''t0ken'' ?u)),
                   s0\<lparr>sent := sent s0 @ [userdata_request ?cfg ''t0ken'']\<rparr>)" for t s0
    by (simp add: get_openshift_user_info_Inr [OF example_lookup] example_config_def)
  note a = token_request_retried_once [OF example_code first, unfolded Let_def]
  note b = token_request_retried_once [OF example_code first', unfolded Let_def]
  have 1: "authenticate ?cfg (example_network curl_error_once (Inr ?u)) example_handler
             new_authenticator
           = get_openshift_user_info ?cfg (example_network curl_error_once (Inr ?u)) ''t0ken''
               \<lparr>use_ca_certs_for_token_request = False,
                 sent = [token_request ?cfg new_authenticator (token_url_of ?cfg ''c0de''),
                         (token_request ?cfg new_authenticator (token_url_of ?cfg ''c0de''))
                           \<lparr>req_ca_certs := ''/etc/pki/tls/cert.pem''\<rparr>],
                 logged = [Info ''Retrying oauth token request with system ca certs'']\<rparr>"
    using a by (simp add: example_token once token_ok_def flag bundles r2)
  have 2: "authenticate ?cfg (example_network curl_error_always (Inr ?u)) example_handler
             new_authenticator
           = (Inl CurlError,
               \<lparr>use_ca_certs_for_token_request = False,
                 sent = [token_request ?cfg new_authenticator (token_url_of ?cfg ''c0de''),
                         (token_request ?cfg new_authenticator (token_url_of ?cfg ''c0de''))
                           \<lparr>req_ca_certs := ''/etc/pki/tls/cert.pem''\<rparr>],
                 logged = [Info ''Retrying oauth token request with system ca certs'']\<rparr>)"
    using b by (simp add: example_token always flag bundles r2)
  show ?thesis
    unfolding 1 2 look by simp
qed

theorem authenticate_record_shape_witness:
  "length (sent (snd (authenticate (example_config {''users''} {''admins''})
                       (example_network always_ok (Inr (example_user [''users''])))
                       example_handler new_authenticator))) = 2
   \<and> fst (authenticate (example_config {''users''} {''admins''})
            (example_network always_ok (Inr (example_user [''users''])))
            example_handler new_authenticator)
       = Inr (Some [(''name'', PStr ''alice''),
                    (''auth_state'',
                     PAuthState \<lparr>access_token = ''t0ken'',
                                 openshift_user = example_user [''users'']\<rparr>),
                    (''admin'', PBool False)])"
proof -
  let ?cfg = "example_config {''users''} {''admins''}"
  let ?u = "example_user [''users'']"
  let ?net = "example_network always_ok (Inr ?u)"
  let ?ui = "[(''name'', PStr ''alice''),
              (''auth_state'', PAuthState \<lparr>access_token = ''t0ken'', openshift_user = ?u\<rparr>),
              (''admin'', PBool False)]"
  have tok: "token_endpoint ?net (length (sent new_authenticator))
               (token_request ?cfg new_authenticator (token_url_of ?cfg ''c0de''))
             = Inr \<lparr>resp_access_token = ''t0ken''\<rparr>"
    by (simp add: example_token always_ok_def token_ok_def)
  have res: "fst (authenticate ?cfg ?net example_handler new_authenticator) = Inr (Some ?ui)"
    unfolding authenticate_Inr [OF example_code tok]
    by (simp add: lookup_with_groups [OF example_lookup] example_simps)
  have run: "authenticate ?cfg ?net example_handler new_authenticator
               = (Inr (Some ?ui), snd (authenticate ?cfg ?net example_handler new_authenticator))"
    by (simp add: prod_eq_iff res)
  from authenticate_record_shape [OF run]
  obtain i where "length (sent (snd (authenticate ?cfg ?net example_handler new_authenticator)))
                    = Suc (Suc i)"
    by blast
  moreover have "length (sent (snd (authenticate ?cfg ?net example_handler new_authenticator)))
                   = Suc (Suc 0)"
    unfolding authenticate_Inr [OF example_code tok]
    by (simp add: sent_get_openshift_user_info new_authenticator_def)
  ultimately have "length (sent (snd (authenticate ?cfg ?net example_handler new_authenticator)))
                     = 2"
    by simp
  with res show ?thesis by simp
qed


lemma sent_authenticate_first:
  assumes "get_argument h ''code'' = Inr c"
  shows "\<exists>rest. sent (snd (authenticate cfg net h s))
                  = sent s @ token_request cfg s (token_url_of cfg c) # rest"
proof (cases "token_endpoint net (length (sent s)) (token_request cfg s (token_url_of cfg c))")
  case (Inr resp)
  show ?thesis
    unfolding authenticate_Inr [OF assms Inr] by (simp add: sent_get_openshift_user_info)
next
  case (Inl ex)
  show ?thesis
  proof (cases "ex = CurlError")
    case False
    show ?thesis unfolding authenticate_Inl [OF assms Inl False] by simp
  next
    case True
    show ?thesis
      unfolding authenticate_CurlError [OF assms Inl [unfolded True]] Let_def
      by (simp add: sent_get_openshift_user_info split: sum.splits)
  qed
qed

text \<open>
  C8. On a freshly constructed authenticator the flag is \<^verbatim>\<open>True\<close>, whatever the
  configuration: the class body tests the trait descriptor, not the configured string. So
  the first token request of the first login carries the \<^verbatim>\<open>ca_certs\<close> bundle, also when
  \<^verbatim>\<open>ca_certs\<close> is the empty string.
\<close>

theorem fresh_flag_prefers_ca_certs:
  "use_ca_certs_for_token_request new_authenticator = True
   \<and> (get_argument h ''code'' = Inr c \<longrightarrow>
        (\<exists>rest. sent (snd (authenticate cfg net h new_authenticator))
                  = token_request cfg new_authenticator (token_url_of cfg c) # rest)
        \<and> req_ca_certs (token_request cfg new_authenticator (token_url_of cfg c)) = ca_certs cfg)"
proof -
  have flag: "use_ca_certs_for_token_request new_authenticator = True"
    by (simp add: new_authenticator_def class_use_ca_certs_for_token_request_def class_ca_certs_def)
  have "\<exists>rest. sent (snd (authenticate cfg net h new_authenticator))
                 = token_request cfg new_authenticator (token_url_of cfg c) # rest"
    if "get_argument h ''code'' = Inr c"
    using sent_authenticate_first [OF that, of cfg net new_authenticator]
    by (simp add: new_authenticator_def)
  with flag show ?thesis by (simp add: token_request_def)
qed

theorem fresh_flag_prefers_ca_certs_witness:
  "req_ca_certs (hd (sent (snd (authenticate
       ((example_config {} {})\<lparr>ca_certs := ''''\<rparr>)
       (example_network always_ok (Inr (example_user [''users''])))
       example_handler new_authenticator)))) = ''''"
proof -
  let ?cfg = "(example_config {} {})\<lparr>ca_certs := ''''\<rparr>"
  let ?net = "example_network always_ok (Inr (example_user [''users'']))"
  from fresh_flag_prefers_ca_certs [of example_handler "''c0de''" ?cfg ?net] example_code
  obtain rest where
    "sent (snd (authenticate ?cfg ?net example_handler new_authenticator))
       = token_request ?cfg new_authenticator (token_url_of ?cfg ''c0de'') # rest"
    and "req_ca_certs (token_request ?cfg new_authenticator (token_url_of ?cfg ''c0de''))
           = ca_certs ?cfg"
    by blast
  then show ?thesis by simp
qed

section \<open>Refresh\<close>

lemma lookup_record_not_empty:
  "fst (get_openshift_user_info cfg net tok s) \<noteq> Inr (Some [])"
proof
  assume "fst (get_openshift_user_info cfg net tok s) = Inr (Some [])"
  from get_openshift_user_info_Some_cases [OF this] show False
    by (auto simp: base_user_info_def)
qed

text \<open>
  C5. For a user with stored authentication state, \<^verbatim>\<open>refresh_user\<close> runs the lookup of
  \<^verbatim>\<open>_get_openshift_user_info\<close> on the stored access token and returns what it returns. When
  the lookup returns \<^verbatim>\<open>None\<close>, \<^verbatim>\<open>user.stop()\<close> is called and \<^verbatim>\<open>None\<close> is the result;
  when it returns a record or raises, \<^verbatim>\<open>user.stop()\<close> is not called.
\<close>

theorem refresh_reruns_lookup_and_stops:
  assumes "get_auth_state user = Some a"
  shows "fst (refresh_user cfg net user s) = fst (get_openshift_user_info cfg net (access_token a) s)
       \<and> fst (snd (refresh_user cfg net user s))
           = snd (get_openshift_user_info cfg net (access_token a) s)
       \<and> (fst (get_openshift_user_info cfg net (access_token a) s) = Inr None \<longrightarrow>
            fst (refresh_user cfg net user s) = Inr None
            \<and> snd (snd (refresh_user cfg net user s)) = stop user)
       \<and> (fst (get_openshift_user_info cfg net (access_token a) s) \<noteq> Inr None \<longrightarrow>
            snd (snd (refresh_user cfg net user s)) = user)"
proof (cases "get_openshift_user_info cfg net (access_token a) s")
  case (Pair r s1)
  show ?thesis
  proof (cases r)
    case (Inl e)
    with Pair assms show ?thesis by (simp add: refresh_user_def)
  next
    case (Inr ui)
    have "ui \<noteq> Some []"
      using lookup_record_not_empty [of cfg net "access_token a" s] Pair Inr by simp
    then have "py_not ui = (ui = None)" by (cases ui) simp_all
    with Pair Inr assms show ?thesis by (simp add: refresh_user_def)
  qed
qed

theorem refresh_reruns_lookup_and_stops_witness:
  "refresh_user (example_config {''admins''} {})
     (example_network always_ok (Inr (example_user [''users''])))
     example_hub_user new_authenticator
   = (Inr None,
      \<lparr>use_ca_certs_for_token_request = True,
       sent = [userdata_request (example_config {''admins''} {}) ''t0ken''],
       logged = [Warning ''username:{username} User not in any of the allowed/admin groups''
                   [PStr ''alice'']]\<rparr>,
      example_hub_user\<lparr>stop_calls := 1\<rparr>)"
proof -
  let ?cfg = "example_config {''admins''} {}"
  let ?net = "example_network always_ok (Inr (example_user [''users'']))"
  have h: "get_auth_state example_hub_user
             = Some \<lparr>access_token = ''t0ken'', openshift_user = example_user [''users'']\<rparr>"
    by (simp add: example_hub_user_def)
  have look: "get_openshift_user_info ?cfg ?net ''t0ken'' new_authenticator
                = (Inr None,
                   \<lparr>use_ca_certs_for_token_request = True,
                    sent = [userdata_request ?cfg ''t0ken''],
                    logged = [Warning ''username:{username} User not in any of the allowed/admin groups''
                                [PStr ''alice'']]\<rparr>)"
    by (simp add: get_openshift_user_info_Inr [OF example_lookup] add_openshift_group_info_base
          log_warning_def example_config_def example_user_def new_authenticator_def
          class_use_ca_certs_for_token_request_def class_ca_certs_def user_in_groups_simps)
  from refresh_reruns_lookup_and_stops [OF h, of ?cfg ?net new_authenticator] look
  have "fst (refresh_user ?cfg ?net example_hub_user new_authenticator) = Inr None"
    and "fst (snd (refresh_user ?cfg ?net example_hub_user new_authenticator))
           = \<lparr>use_ca_certs_for_token_request = True,
              sent = [userdata_request ?cfg ''t0ken''],
              logged = [Warning ''username:{username} User not in any of the allowed/admin groups''
                          [PStr ''alice'']]\<rparr>"
    and "snd (snd (refresh_user ?cfg ?net example_hub_user new_authenticator))
           = stop example_hub_user"
    by simp_all
  then show ?thesis
    by (simp add: prod_eq_iff stop_def example_hub_user_def)
qed

end
